theory Spec2Isabelle
  imports Complex_Main
begin

section \<open>JavaScript numbers, as far as the consensus arithmetic needs them\<close>

text \<open>
  \<open>peers.js\<close> computes with JavaScript numbers. Every finite value that occurs there is
  a peer count (at most \<open>MAX_PEERS\<close>), a product of such a count with 10000, a quotient of
  these, or an integer number of hundredths. A finite number is modelled by its exact
  rational value; the non-finite results of a division by zero are separate constructors,
  so that a division by zero is visible in the result instead of being hidden by the
  convention \<open>x / 0 = 0\<close> of HOL.
\<close>

datatype number = Finite rat | PosInfinity | NegInfinity | NaN

text \<open>\<open>a / b\<close> for a finite divisor \<open>b\<close>.\<close>

fun js_div :: "number \<Rightarrow> rat \<Rightarrow> number" where
  "js_div (Finite a) b =
     (if b = 0 then (if a = 0 then NaN else if 0 < a then PosInfinity else NegInfinity)
      else Finite (a / b))"
| "js_div PosInfinity b = (if b < 0 then NegInfinity else PosInfinity)"
| "js_div NegInfinity b = (if b < 0 then PosInfinity else NegInfinity)"
| "js_div NaN b = NaN"

text \<open>\<open>Math.round\<close>: the nearest integer, a tie going up.\<close>

fun Math_round :: "number \<Rightarrow> number" where
  "Math_round (Finite x) = Finite (of_int \<lfloor>x + 1 / 2\<rfloor>)"
| "Math_round PosInfinity = PosInfinity"
| "Math_round NegInfinity = NegInfinity"
| "Math_round NaN = NaN"

text \<open>\<open>a < b\<close>: false as soon as one side is \<open>NaN\<close>.\<close>

fun js_less :: "number \<Rightarrow> number \<Rightarrow> bool" where
  "js_less (Finite a) (Finite b) = (a < b)"
| "js_less (Finite a) PosInfinity = True"
| "js_less NegInfinity (Finite b) = True"
| "js_less NegInfinity PosInfinity = True"
| "js_less _ _ = False"

section \<open>peers.js\<close>

definition MAX_PEERS :: nat where
  "MAX_PEERS = 100"

text \<open>
  What a module publishes about itself: \<open>{ broadhash, height }\<close>, or \<open>{}\<close> right after
  the chain has subscribed to its events. An absent property is \<open>None\<close>.
\<close>

record module_info =
  broadhash :: "string option"
  height :: "nat option"

text \<open>
  The application state maps module aliases to their info; a connected peer may carry no
  \<open>modules\<close> property at all.
\<close>

record application_state =
  app_modules :: "string \<rightharpoonup> module_info"

record peer =
  peer_modules :: "(string \<rightharpoonup> module_info) option"

text \<open>
  The channel answers \<open>app:getApplicationState\<close> and \<open>network:getConnectedPeers\<close>; the
  record holds what it answers at the time of the call.
\<close>

record channel =
  getApplicationState :: application_state
  getConnectedPeers :: "peer list"

record Peers =
  moduleAlias :: string
  forgingForce :: bool
  minBroadhashConsensus :: number

text \<open>\<open>peer.modules && peer.modules[this.moduleAlias]\<close>\<close>

definition peerModuleInfo :: "string \<Rightarrow> peer \<Rightarrow> module_info option" where
  "peerModuleInfo alias p = (case peer_modules p of None \<Rightarrow> None | Some ms \<Rightarrow> ms alias)"

definition activePeers :: "string \<Rightarrow> peer list \<Rightarrow> peer list" where
  "activePeers alias connectedPeers =
     filter (\<lambda>p. peerModuleInfo alias p \<noteq> None) connectedPeers"

text \<open>
  \<open>peer.modules[this.moduleAlias].broadhash === broadhash\<close>, on the active peers only
  (for the others the property access would throw; the filter above excludes them).
\<close>

definition matchingPeers :: "string \<Rightarrow> string option \<Rightarrow> peer list \<Rightarrow> peer list" where
  "matchingPeers alias bh active =
     filter (\<lambda>p. case peerModuleInfo alias p of
                    None \<Rightarrow> False
                  | Some info \<Rightarrow> broadhash info = bh) active"

text \<open>
  \<open>calculateConsensus\<close> declares no parameter: the broadhash its callers pass is dropped,
  and the one compared is the one the application state holds for this module.
\<close>

definition calculateConsensus :: "Peers \<Rightarrow> channel \<Rightarrow> number" where
  "calculateConsensus this ch =
     (case app_modules (getApplicationState ch) (moduleAlias this) of
        None \<Rightarrow> Finite 0
      | Some moduleInfo \<Rightarrow>
          (let active = activePeers (moduleAlias this) (getConnectedPeers ch);
               activeCount = min (length active) MAX_PEERS
           in if activeCount = 0 then Finite 0
              else
                (let matching = matchingPeers (moduleAlias this) (broadhash moduleInfo) active;
                     matchedCount = min (length matching) MAX_PEERS
                 in js_div
                      (Math_round (js_div (Finite (of_nat (matchedCount * 10000)))
                                          (of_nat activeCount)))
                      100)))"

definition getLastConsensus :: "Peers \<Rightarrow> string option \<Rightarrow> channel \<Rightarrow> number" where
  "getLastConsensus this bh ch = calculateConsensus this ch"

definition isPoorConsensus :: "Peers \<Rightarrow> string option \<Rightarrow> channel \<Rightarrow> bool" where
  "isPoorConsensus this bh ch =
     (if forgingForce this then False
      else js_less (calculateConsensus this ch) (minBroadhashConsensus this))"

section \<open>transport.js: the common-block query\<close>

text \<open>
  \<open>String.prototype.split\<close> with a one-character separator: the pieces between the
  separators, so that the empty string gives one empty piece.
\<close>

fun js_split :: "char \<Rightarrow> string \<Rightarrow> string list" where
  "js_split sep [] = [[]]"
| "js_split sep (c # cs) =
     (if c = sep then [] # js_split sep cs
      else (case js_split sep cs of
              [] \<Rightarrow> [[c]]
            | w # ws \<Rightarrow> (c # w) # ws))"

text \<open>\<open>.replace(/['"]+/g, '')\<close>: every single and double quote is dropped.\<close>

definition remove_quotes :: "string \<Rightarrow> string" where
  "remove_quotes s = filter (\<lambda>c. c \<noteq> CHR 0x27 \<and> c \<noteq> CHR 0x22) s"

text \<open>\<open>/^[0-9]+$/.test(id)\<close>: at least one character, all of them decimal digits.\<close>

definition is_numeric :: "string \<Rightarrow> bool" where
  "is_numeric s = (s \<noteq> [] \<and> list_all (\<lambda>c. c \<in> set ''0123456789'') s)"

text \<open>
  The query of \<open>blocksCommon\<close>. Its \<open>ids\<close> property is a string or absent; the empty
  string is falsy, as an absent property is.
\<close>

record common_query =
  ids :: "string option"

record validation_error =
  message :: string
  path :: string

text \<open>A row of the \<open>Block\<close> entity, with the columns the operation reads.\<close>

record block_row =
  row_id :: string
  row_height :: nat
  row_previousBlockId :: "string option"
  row_timestamp :: int

record parsedRow =
  common_id :: string
  common_height :: nat
  common_previousBlock :: "string option"
  common_timestamp :: int

record common_response =
  success :: bool
  common :: "parsedRow option"

text \<open>
  What an operation throws: an \<open>Error\<close> with its message, a \<open>TypeError\<close> of the
  runtime, or an array of error objects (\<open>throw errors\<close>), each given by its message.
\<close>

datatype error = Error string | TypeError string | Errors "string list"

text \<open>
  What an operation does besides returning, in order: the log lines it writes, the
  lookups it sends to the store, the schema validations it runs (by schema name) and the
  calls it makes into the transaction adapter, the pool and the blocks module.
\<close>

datatype effect =
    LogDebug string
  | LogError string
  | BlockGet string
  | Validate string
  | FromJson
  | ComposedTransactionsCheck
  | ProcessUnconfirmedTransaction
  | NormalizeBlock
  | ReceiveBlockFromNetwork

text \<open>
  \<open>blocksCommon\<close>. The schema \<open>WSBlocksCommonRequest\<close> and the store are collaborators:
  \<open>validate\<close> gives the schema errors of a query, \<open>Block_get i\<close> the rows that
  \<open>storage.entities.Block.get({id: i})\<close> resolves to, or \<open>Inl\<close> when it rejects.
\<close>

definition blocksCommon ::
  "(common_query \<Rightarrow> validation_error list) \<Rightarrow> (string \<Rightarrow> error + block_row list)
     \<Rightarrow> common_query option \<Rightarrow> (error + common_response) \<times> effect list" where
  "blocksCommon validate Block_get query0 =
     (let query = (case query0 of None \<Rightarrow> \<lparr>ids = None\<rparr> | Some q \<Rightarrow> q) in
      if (case ids query of
            None \<Rightarrow> False
          | Some s \<Rightarrow> s \<noteq> [] \<and> length (js_split (CHR '','') s) > 1000)
      then (Inl (Error ''ids property contains more than 1000 values''), [])
      else
        (case validate query of
           e # _ \<Rightarrow>
             (Inl (Error (message e @ '': '' @ path e)),
              [LogDebug ''Common block request validation failed''])
         | [] \<Rightarrow>
             (case ids query of
                None \<Rightarrow> (Inl (TypeError ''Cannot read property replace of undefined''), [])
              | Some s \<Rightarrow>
                  (case filter is_numeric (js_split (CHR '','') (remove_quotes s)) of
                     [] \<Rightarrow>
                       (Inl (Error ''Invalid block id sequence''),
                        [LogDebug ''Common block request validation failed''])
                   | id0 # _ \<Rightarrow>
                       (case Block_get id0 of
                          Inl err \<Rightarrow>
                            (Inl (Error ''Failed to get common block''),
                             [BlockGet id0, LogError ''error.stack''])
                        | Inr [] \<Rightarrow>
                            (Inr \<lparr>success = True, common = None\<rparr>, [BlockGet id0])
                        | Inr (row # _) \<Rightarrow>
                            (Inr \<lparr>success = True,
                                  common = Some \<lparr>common_id = row_id row,
                                                  common_height = row_height row,
                                                  common_previousBlock = row_previousBlockId row,
                                                  common_timestamp = row_timestamp row\<rparr>\<rparr>,
                             [BlockGet id0]))))))"

text \<open>
  A store holding the given rows and answering every lookup: the rows whose id is the
  one asked for, in stored order.
\<close>

definition rows_by_id :: "block_row list \<Rightarrow> string \<Rightarrow> error + block_row list" where
  "rows_by_id stored i = Inr (filter (\<lambda>r. row_id r = i) stored)"

section \<open>transport.js: receiving transactions and blocks\<close>

text \<open>
  An element of a transaction's \<open>signatures\<close> array as it arrives: a string, an object
  with a \<open>signature\<close> property (absent: \<open>None\<close>), or a falsy value.
\<close>

datatype signature_packet = SigString string | SigObject "string option" | SigFalsy

text \<open>
  \<open>typeof signaturePacket === 'string' ? signaturePacket
     : signaturePacket && signaturePacket.signature\<close>
\<close>

fun sanitize_signature :: "signature_packet \<Rightarrow> signature_packet" where
  "sanitize_signature (SigString s) = SigString s"
| "sanitize_signature (SigObject (Some s)) = SigString s"
| "sanitize_signature (SigObject None) = SigFalsy"
| "sanitize_signature SigFalsy = SigFalsy"

text \<open>
  A transaction as JSON: the properties the transport reads or writes, and the others
  kept together, untouched.
\<close>

record transactionJSON =
  json_id :: "string option"
  json_signatures :: "signature_packet list option"
  json_bundled :: bool
  json_rest :: string

record post_query =
  transaction :: "transactionJSON option"

record post_response =
  post_success :: bool
  transactionId :: string

text \<open>The error \<open>postTransaction\<close> throws: an \<open>Error\<close> with two properties set.\<close>

record action_error =
  error_name :: string
  error_type :: string
  error_message :: string

text \<open>The state an inbound request can change, and the effects it has had so far.\<close>

record ('c, 'p) node =
  chain :: 'c
  pool :: 'p
  effects :: "effect list"

text \<open>
  The transport's configuration and collaborators; none of them is part of
  \<open>transport.js\<close>. A collaborator that may throw returns \<open>Inl\<close> or \<open>Some\<close> of what it
  throws.
  \<^item> \<open>broadcasts_active\<close>: \<open>this.constants.broadcasts.active\<close>.
  \<^item> \<open>fromJson\<close>: \<open>interfaceAdapters.transactions.fromJson\<close>; \<open>transaction_id\<close> reads
    the \<open>id\<close> of the instance it builds.
  \<^item> \<open>composedTransactionsCheck\<close>: \<open>checkAllowedTransactions(lastBlock)\<close> composed with
    \<open>validateTransactions(exceptions)\<close>, giving \<open>transactionsResponses[0].errors\<close>.
  \<^item> \<open>processUnconfirmedTransaction\<close>: the pool's ingest, with its \<open>broadcast\<close> flag.
  \<^item> \<open>convertErrorsToString\<close>: the helper of \<open>utils/error_handlers\<close>.
  \<^item> \<open>validate_WSTransactionsRequest\<close>, \<open>validate_WSBlocksBroadcast\<close>: the schema
    errors of a query (by message); \<open>query_transactions\<close> reads \<open>query.transactions\<close>.
  \<^item> \<open>normalizeBlock\<close>: \<open>addBlockProperties\<close>, \<open>fromBlock\<close> and \<open>objectNormalize\<close> in
    turn; \<open>block_id\<close> reads the \<open>id\<close> of the result.
  \<^item> \<open>syncing\<close>: \<open>loaderModule.syncing()\<close>.
  \<^item> \<open>receiveBlockFromNetwork\<close>: the blocks module's entry for a received block.
  \<^item> \<open>getMergedTransactionList\<close>: the pool's list of transactions to share, with its
    \<open>reverse\<close> flag and limit; \<open>maxSharedTransactions\<close>: the configured limit.
\<close>

record ('tx, 'blk, 'tq, 'bq, 'c, 'p) Transport =
  broadcasts_active :: bool
  fromJson :: "transactionJSON option \<Rightarrow> error + 'tx"
  transaction_id :: "'tx \<Rightarrow> string"
  composedTransactionsCheck :: "'c \<Rightarrow> 'tx \<Rightarrow> error + string list"
  processUnconfirmedTransaction :: "'tx \<Rightarrow> bool \<Rightarrow> 'p \<Rightarrow> error option \<times> 'p"
  convertErrorsToString :: "error \<Rightarrow> string"
  validate_WSTransactionsRequest :: "'tq option \<Rightarrow> string list"
  query_transactions :: "'tq \<Rightarrow> transactionJSON option list option"
  validate_WSBlocksBroadcast :: "'bq \<Rightarrow> string list"
  normalizeBlock :: "'bq \<Rightarrow> error + 'blk"
  block_id :: "'blk \<Rightarrow> string"
  syncing :: "'c \<Rightarrow> bool"
  receiveBlockFromNetwork :: "'blk \<Rightarrow> 'c \<Rightarrow> 'p \<Rightarrow> error option \<times> 'c \<times> 'p"
  getMergedTransactionList :: "bool \<Rightarrow> nat \<Rightarrow> 'p \<Rightarrow> 'tx list"
  maxSharedTransactions :: nat

definition log_effect :: "effect \<Rightarrow> ('c, 'p) node \<Rightarrow> ('c, 'p) node" where
  "log_effect e st = st\<lparr>effects := effects st @ [e]\<rparr>"

text \<open>
  \<open>_receiveTransaction\<close>: build the instance and check it (any failure is logged and
  rethrown), then hand it to the pool (again logged and rethrown); the result is the
  instance's id. The \<open>id\<close> read from the JSON (\<open>'null'\<close> for a falsy JSON) only appears
  in a log line.
\<close>

definition receiveTransaction ::
  "('tx, 'blk, 'tq, 'bq, 'c, 'p) Transport \<Rightarrow> transactionJSON option \<Rightarrow> ('c, 'p) node
     \<Rightarrow> (error + string) \<times> ('c, 'p) node" where
  "receiveTransaction this transactionJSON st0 =
     (let id0 = (case transactionJSON of
                   None \<Rightarrow> ''null''
                 | Some j \<Rightarrow> (case json_id j of None \<Rightarrow> ''undefined'' | Some i \<Rightarrow> i));
          st1 = log_effect FromJson st0 in
      case fromJson this transactionJSON of
        Inl errors \<Rightarrow>
          (Inl errors, log_effect (LogDebug ''Transaction normalization failed'') st1)
      | Inr tx \<Rightarrow>
          (let st2 = log_effect ComposedTransactionsCheck st1 in
           case composedTransactionsCheck this (chain st2) tx of
             Inl errors \<Rightarrow>
               (Inl errors, log_effect (LogDebug ''Transaction normalization failed'') st2)
           | Inr (e # es) \<Rightarrow>
               (Inl (Errors (e # es)),
                log_effect (LogDebug ''Transaction normalization failed'') st2)
           | Inr [] \<Rightarrow>
               (let st3 = log_effect ProcessUnconfirmedTransaction
                            (log_effect (LogDebug (''Received transaction '' @ transaction_id this tx)) st2)
                in case processUnconfirmedTransaction this tx True (pool st3) of
                     (None, pool') \<Rightarrow> (Inr (transaction_id this tx), st3\<lparr>pool := pool'\<rparr>)
                   | (Some err, pool') \<Rightarrow>
                       (Inl err,
                        log_effect (LogDebug ''Transaction'')
                          (log_effect (LogDebug (''Transaction '' @ id0))
                             (st3\<lparr>pool := pool'\<rparr>))))))"

text \<open>The body of the \<open>try\<close> block of \<open>postTransaction\<close>.\<close>

definition postTransaction_try ::
  "('tx, 'blk, 'tq, 'bq, 'c, 'p) Transport \<Rightarrow> post_query option \<Rightarrow> ('c, 'p) node
     \<Rightarrow> (error + string) \<times> ('c, 'p) node" where
  "postTransaction_try this query st =
     (case query of
        None \<Rightarrow> (Inl (TypeError ''Cannot destructure property transaction of undefined''), st)
      | Some q \<Rightarrow>
          (case transaction q of
             None \<Rightarrow> (Inl (TypeError ''Cannot read property signatures of undefined''), st)
           | Some t \<Rightarrow>
               receiveTransaction this
                 (Some (t\<lparr>json_signatures :=
                            map_option (map sanitize_signature) (json_signatures t)\<rparr>))
                 st))"

definition postTransaction ::
  "('tx, 'blk, 'tq, 'bq, 'c, 'p) Transport \<Rightarrow> post_query option \<Rightarrow> ('c, 'p) node
     \<Rightarrow> (action_error + post_response) \<times> ('c, 'p) node" where
  "postTransaction this query st =
     (case postTransaction_try this query st of
        (Inr i, st') \<Rightarrow> (Inr \<lparr>post_success = True, transactionId = i\<rparr>, st')
      | (Inl errors, st') \<Rightarrow>
          (Inl \<lparr>error_name = ''InvalidTransactionError'',
                error_type = ''InvalidActionError'',
                error_message = convertErrorsToString this errors\<rparr>, st'))"

text \<open>
  \<open>_receiveTransactions\<close>: every truthy element is marked as bundled and received; a
  failure is logged and the loop goes on.
\<close>

fun receiveTransactions ::
  "('tx, 'blk, 'tq, 'bq, 'c, 'p) Transport \<Rightarrow> transactionJSON option list \<Rightarrow> ('c, 'p) node
     \<Rightarrow> ('c, 'p) node" where
  "receiveTransactions this [] st = st"
| "receiveTransactions this (t # ts) st =
     (case receiveTransaction this (map_option (\<lambda>j. j\<lparr>json_bundled := True\<rparr>) t) st of
        (Inr i, st') \<Rightarrow> receiveTransactions this ts st'
      | (Inl err, st') \<Rightarrow>
          receiveTransactions this ts
            (log_effect (LogDebug (convertErrorsToString this err)) st'))"

definition postTransactions ::
  "('tx, 'blk, 'tq, 'bq, 'c, 'p) Transport \<Rightarrow> 'tq option \<Rightarrow> ('c, 'p) node
     \<Rightarrow> (error + unit) \<times> ('c, 'p) node" where
  "postTransactions this query st =
     (if \<not> broadcasts_active this
      then (Inr (),
            log_effect (LogDebug ''Receiving transactions disabled by user through config.json'') st)
      else
        (let st1 = log_effect (Validate ''WSTransactionsRequest'') st in
         case validate_WSTransactionsRequest this query of
           e # es \<Rightarrow>
             (Inl (Errors (e # es)), log_effect (LogDebug ''Invalid transactions body'') st1)
         | [] \<Rightarrow>
             (case query of
                None \<Rightarrow> (Inl (TypeError ''Cannot read property transactions of undefined''), st1)
              | Some q \<Rightarrow>
                  (Inr (),
                   receiveTransactions this
                     (case query_transactions this q of None \<Rightarrow> [] | Some ts \<Rightarrow> ts) st1))))"

text \<open>\<open>postBlock(query = {})\<close>; \<open>empty_query\<close> stands for the default \<open>{}\<close>.\<close>

definition postBlock ::
  "('tx, 'blk, 'tq, 'bq, 'c, 'p) Transport \<Rightarrow> 'bq \<Rightarrow> 'bq option \<Rightarrow> ('c, 'p) node
     \<Rightarrow> (error + unit) \<times> ('c, 'p) node" where
  "postBlock this empty_query query0 st =
     (if \<not> broadcasts_active this
      then (Inr (),
            log_effect (LogDebug ''Receiving blocks disabled by user through config.json'') st)
      else
        (let query = (case query0 of None \<Rightarrow> empty_query | Some q \<Rightarrow> q);
             st1 = log_effect (Validate ''WSBlocksBroadcast'') st
         in case validate_WSBlocksBroadcast this query of
              e # es \<Rightarrow>
                (Inl (Errors (e # es)),
                 log_effect (LogDebug ''Received post block broadcast request in unexpected format'') st1)
            | [] \<Rightarrow>
                (let st2 = log_effect NormalizeBlock st1 in
                 case normalizeBlock this query of
                   Inl err \<Rightarrow> (Inl err, st2)
                 | Inr block \<Rightarrow>
                     if syncing this (chain st2)
                     then (Inr (),
                           log_effect (LogDebug ''Client is syncing. Can't receive block at the moment.'') st2)
                     else
                       (let st3 = log_effect ReceiveBlockFromNetwork st2 in
                        case receiveBlockFromNetwork this block (chain st3) (pool st3) of
                          (None, c', p') \<Rightarrow> (Inr (), st3\<lparr>chain := c', pool := p'\<rparr>)
                        | (Some err, c', p') \<Rightarrow> (Inl err, st3\<lparr>chain := c', pool := p'\<rparr>)))))"

text \<open>\<open>getTransactions\<close>: up to \<open>maxSharedTransactions\<close> transactions of the pool.\<close>

record 'tx transactions_response =
  transactions_success :: bool
  transactions :: "'tx list"

definition getTransactions ::
  "('tx, 'blk, 'tq, 'bq, 'c, 'p) Transport \<Rightarrow> ('c, 'p) node \<Rightarrow> 'tx transactions_response" where
  "getTransactions this st =
     \<lparr>transactions_success = True,
      transactions = getMergedTransactionList this True (maxSharedTransactions this) (pool st)\<rparr>"

section \<open>index.js: the actions of the module\<close>

text \<open>
  The actions the module registers with \<open>isPublic: true\<close>; a public action can be invoked
  by a peer of the network. Every handler forwards to the action of the same name of
  the chain, which forwards \<open>getTransactions\<close>, \<open>postTransaction\<close>, \<open>blocks\<close> and
  \<open>blocksCommon\<close> to the transport.
\<close>

definition isPublic :: "string \<Rightarrow> bool" where
  "isPublic action = (action \<in> set [''getTransactions'', ''blocks'', ''blocksCommon''])"

section \<open>chain.js: sanitizing stored transactions\<close>

text \<open>The bytes of a \<open>Buffer\<close>, one character each.\<close>

type_synonym Buffer = string

text \<open>
  A row of \<open>trs\<close> as the inbound and outbound queries select it. A column that is
  \<open>null\<close> is \<open>None\<close>.
\<close>

record stored_transaction =
  txn_id :: string
  txn_type :: nat
  senderId :: string
  senderPublicKey :: "Buffer option"
  timestamp :: int
  recipientId :: "string option"
  amount :: string
  blockId :: string
  transferData :: "Buffer option"
  signatures :: "string option"

text \<open>
  The object whose bytes are hashed: the row without \<open>signature\<close>, \<open>signSignature\<close> and
  \<open>signatures\<close>, with the sender's public key in hex and an \<open>asset\<close> that holds the
  transfer data as text when there is some.
\<close>

record transactionToHash =
  hash_id :: string
  hash_type :: nat
  hash_senderId :: string
  hash_senderPublicKey :: string
  hash_timestamp :: int
  hash_recipientId :: "string option"
  hash_amount :: string
  hash_blockId :: string
  hash_transferData :: "Buffer option"
  hash_asset_data :: "string option"

record signer =
  signerAddress :: "string option"
  signature :: string

text \<open>
  The \<open>signatures\<close> property of a sanitized transaction: the stored value as it was, or
  the list of signers.
\<close>

datatype sanitized_signatures = Stored "string option" | Signers "signer list"

record sanitized_transaction =
  new_id :: string
  new_type :: nat
  new_senderAddress :: string
  new_senderPublicKey :: "string option"
  new_timestamp :: int
  new_recipientAddress :: "string option"
  new_recipientId :: "string option"
  new_amount :: string
  new_blockId :: string
  new_message :: "string option"
  new_signatures :: sanitized_signatures

text \<open>
  The libraries and the store the chain calls: \<open>Buffer.toString\<close> for \<open>utf8\<close> and
  \<open>hex\<close>, \<open>hash\<close>, \<open>verifyData\<close> and \<open>getAddressFromPublicKey\<close> of the cryptography
  library, \<open>getTransactionBytes\<close> of the transactions library, and the query of
  \<open>_getMultisigWalletMembers\<close>, which gives the \<open>dependentId\<close> of every row or rejects.
\<close>

record Chain =
  toString_utf8 :: "Buffer \<Rightarrow> string"
  toString_hex :: "Buffer \<Rightarrow> string"
  hash :: "Buffer \<Rightarrow> Buffer"
  getTransactionBytes :: "transactionToHash \<Rightarrow> Buffer"
  verifyData :: "Buffer \<Rightarrow> string \<Rightarrow> string \<Rightarrow> bool"
  getAddressFromPublicKey :: "string \<Rightarrow> string"
  getMultisigWalletMembers :: "string \<Rightarrow> error + string list"

text \<open>A string is truthy when it is present and not empty.\<close>

definition truthy :: "string option \<Rightarrow> bool" where
  "truthy v = (case v of None \<Rightarrow> False | Some s \<Rightarrow> s \<noteq> [])"

text \<open>
  The object \<open>_findMultisigMemberWalletAddress\<close> hashes; reading the public key of a row
  that has none throws.
\<close>

definition toHash :: "Chain \<Rightarrow> stored_transaction \<Rightarrow> error + transactionToHash" where
  "toHash this txn =
     (case senderPublicKey txn of
        None \<Rightarrow> Inl (TypeError ''Cannot read property toString of null'')
      | Some pk \<Rightarrow>
          Inr \<lparr>hash_id = txn_id txn, hash_type = txn_type txn, hash_senderId = senderId txn,
               hash_senderPublicKey = toString_hex this pk, hash_timestamp = timestamp txn,
               hash_recipientId = recipientId txn, hash_amount = amount txn,
               hash_blockId = blockId txn, hash_transferData = transferData txn,
               hash_asset_data = map_option (toString_utf8 this) (transferData txn)\<rparr>)"

text \<open>
  \<open>_findMultisigMemberWalletAddress\<close>: the address of the first member key under which
  the signature verifies; \<open>null\<close> when \<open>find\<close> gives nothing or a falsy (empty) key.
\<close>

definition findMultisigMemberWalletAddress ::
  "Chain \<Rightarrow> stored_transaction \<Rightarrow> string \<Rightarrow> string list \<Rightarrow> error + string option" where
  "findMultisigMemberWalletAddress this txn sig memberPublicKeyList =
     (case toHash this txn of
        Inl err \<Rightarrow> Inl err
      | Inr transactionToHash \<Rightarrow>
          (case find (\<lambda>publicKey.
                        verifyData this (hash this (getTransactionBytes this transactionToHash))
                          sig publicKey) memberPublicKeyList of
             None \<Rightarrow> Inr None
           | Some memberPublicKey \<Rightarrow>
               if memberPublicKey = [] then Inr None
               else Inr (Some (getAddressFromPublicKey this memberPublicKey))))"

text \<open>\<open>signatureList.map\<close> with its callback: the first throw ends the map.\<close>

fun signers_of ::
  "Chain \<Rightarrow> stored_transaction \<Rightarrow> string list \<Rightarrow> string list \<Rightarrow> error + signer list" where
  "signers_of this txn memberPublicKeyList [] = Inr []"
| "signers_of this txn memberPublicKeyList (sig # sigs) =
     (case findMultisigMemberWalletAddress this txn sig memberPublicKeyList of
        Inl err \<Rightarrow> Inl err
      | Inr address \<Rightarrow>
          (case signers_of this txn memberPublicKeyList sigs of
             Inl err \<Rightarrow> Inl err
           | Inr rest \<Rightarrow> Inr (\<lparr>signerAddress = address, signature = sig\<rparr> # rest)))"

text \<open>
  The callback of \<open>_sanitizeTransactions\<close>, for one row. A \<open>transferData\<close> that stays
  in the result is \<open>null\<close>, and \<open>split\<close> never gives an empty array, so the test of
  \<open>signatureList.length\<close> always passes.
\<close>

definition sanitizeTransaction ::
  "Chain \<Rightarrow> stored_transaction \<Rightarrow> error + sanitized_transaction" where
  "sanitizeTransaction this txn =
     (let newTxn =
            \<lparr>new_id = txn_id txn, new_type = txn_type txn, new_senderAddress = senderId txn,
             new_senderPublicKey = map_option (toString_hex this) (senderPublicKey txn),
             new_timestamp = timestamp txn,
             new_recipientAddress = (if truthy (recipientId txn) then recipientId txn else None),
             new_recipientId = (if truthy (recipientId txn) then None else recipientId txn),
             new_amount = amount txn, new_blockId = blockId txn,
             new_message = map_option (toString_utf8 this) (transferData txn),
             new_signatures = Stored (signatures txn)\<rparr>
      in if txn_type txn = 0 \<and> truthy (signatures txn)
         then
           (case getMultisigWalletMembers this (senderId txn) of
              Inl err \<Rightarrow> Inl err
            | Inr memberPublicKeyList \<Rightarrow>
                (case signers_of this txn memberPublicKeyList
                        (js_split (CHR '','') (case signatures txn of None \<Rightarrow> [] | Some s \<Rightarrow> s)) of
                   Inl err \<Rightarrow> Inl err
                 | Inr signerList \<Rightarrow> Inr (newTxn\<lparr>new_signatures := Signers signerList\<rparr>)))
         else Inr newTxn)"

text \<open>
  \<open>_sanitizeTransactions\<close>: \<open>Promise.all\<close> over the rows; it resolves to the sanitized
  rows in order, or rejects when a row's callback does.
\<close>

fun sanitizeTransactions ::
  "Chain \<Rightarrow> stored_transaction list \<Rightarrow> error + sanitized_transaction list" where
  "sanitizeTransactions this [] = Inr []"
| "sanitizeTransactions this (txn # txns) =
     (case sanitizeTransaction this txn of
        Inl err \<Rightarrow> Inl err
      | Inr newTxn \<Rightarrow>
          (case sanitizeTransactions this txns of
             Inl err \<Rightarrow> Inl err
           | Inr rest \<Rightarrow> Inr (newTxn # rest)))"

section \<open>chain.js: bootstrap\<close>

text \<open>
  The options \<open>bootstrap\<close> reads and writes. \<open>loading.rebuildUpToRound\<close> is a round
  number or absent; absent and 0 are falsy.
\<close>

record options =
  rebuildUpToRound :: "nat option"
  options_broadcasts_active :: bool
  options_syncing_active :: bool

definition rebuilding :: "options \<Rightarrow> bool" where
  "rebuilding opts = (case rebuildUpToRound opts of None \<Rightarrow> False | Some r \<Rightarrow> r \<noteq> 0)"

text \<open>
  What \<open>bootstrap\<close> does, in order. \<open>InitModules\<close> carries \<open>broadcasts.active\<close> and
  \<open>syncing.active\<close> as the modules are given them, \<open>Subscribe\<close> the name of a channel
  event, \<open>RegisterJob\<close> the name of a job of the job queue, and \<open>EmitCleanup\<close> the error
  attached to the \<open>cleanup\<close> signal.
\<close>

datatype boot_event =
    CreateCache
  | CreateStorage
  | BootstrapStorage
  | BootstrapCache
  | DefineSchema
  | ApplyMigrations
  | LogWarn string
  | LogFatal
  | InitModules bool bool
  | Subscribe string
  | LoadBlockChain "nat option"
  | EmitCleanup "error option"
  | SubscribeToEvents
  | LoadUnconfirmedTransactions
  | RegisterJob string
  | LoadDelegates

record chain_state =
  chain_options :: options
  events :: "boot_event list"

text \<open>
  How the calls of \<open>bootstrap\<close> into other modules end: \<open>None\<close> when the call returns,
  \<open>Some\<close> of what it throws otherwise. \<open>preamble\<close> stands for the statements before the
  \<open>try\<close> block (reading the genesis block file, asking the channel for the component
  configurations and the application state, creating the loggers), \<open>genesisBlock\<close> for
  whether the genesis block read is truthy.
\<close>

record collaborators =
  preamble :: "error option"
  genesisBlock :: bool
  createCacheComponent :: "error option"
  createStorageComponent :: "error option"
  bootstrapStorage :: "error option"
  bootstrapCache :: "error option"
  defineSchema :: "error option"
  applyAll :: "error option"
  initModules :: "error option"
  loadBlockChain :: "error option"
  loadDelegates :: "error option"

type_synonym step = "chain_state \<Rightarrow> chain_state \<times> error option"

definition emit :: "boot_event \<Rightarrow> step" where
  "emit ev b = (b\<lparr>events := events b @ [ev]\<rparr>, None)"

definition call :: "error option \<Rightarrow> boot_event \<Rightarrow> step" where
  "call outcome ev b = (b\<lparr>events := events b @ [ev]\<rparr>, outcome)"

text \<open>Statements in sequence: the first throw ends the sequence.\<close>

fun run :: "step list \<Rightarrow> step" where
  "run [] b = (b, None)"
| "run (f # fs) b = (case f b of (b', Some err) \<Rightarrow> (b', Some err) | (b', None) \<Rightarrow> run fs b')"

definition initModules_step :: "collaborators \<Rightarrow> step" where
  "initModules_step env b =
     call (initModules env)
       (InitModules (options_broadcasts_active (chain_options b))
                    (options_syncing_active (chain_options b))) b"

definition startLoader :: step where
  "startLoader b =
     run [emit LoadUnconfirmedTransactions,
          (\<lambda>b. if \<not> options_syncing_active (chain_options b) then (b, None)
                else emit (RegisterJob ''nextSync'') b)] b"

definition calculateConsensus_job :: step where
  "calculateConsensus_job = emit (RegisterJob ''calculateConsensus'')"

definition startForging :: "collaborators \<Rightarrow> step" where
  "startForging env b =
     run [(\<lambda>b. case call (loadDelegates env) LoadDelegates b of
                  (b', Some err) \<Rightarrow> (b', None)
                | (b', None) \<Rightarrow> (b', None)),
          emit (RegisterJob ''nextForge'')] b"

text \<open>The body of the \<open>try\<close> block of \<open>bootstrap\<close>.\<close>

definition bootstrap_try :: "collaborators \<Rightarrow> string \<Rightarrow> step" where
  "bootstrap_try env alias =
     run [(\<lambda>b. if \<not> genesisBlock env
                then (b, Some (Error ''Failed to assign nethash from genesis block''))
                else (b, None)),
          call (createCacheComponent env) CreateCache,
          call (createStorageComponent env) CreateStorage,
          call (bootstrapStorage env) BootstrapStorage,
          call (bootstrapCache env) BootstrapCache,
          call (defineSchema env) DefineSchema,
          (\<lambda>b. case call (applyAll env) ApplyMigrations b of
                  (b', Some err) \<Rightarrow> emit (LogWarn ''Could not apply some migrations'') b'
                | (b', None) \<Rightarrow> (b', None)),
          initModules_step env,
          emit (Subscribe ''app:state:updated''),
          (\<lambda>b. call (loadBlockChain env) (LoadBlockChain (rebuildUpToRound (chain_options b))) b),
          (\<lambda>b. if rebuilding (chain_options b) then emit (EmitCleanup None) b
                else run [emit SubscribeToEvents,
                          startLoader,
                          calculateConsensus_job,
                          startForging env,
                          emit (Subscribe (''network:event:'' @ alias @ '':postTransactions'')),
                          emit (Subscribe (''network:event:'' @ alias @ '':postBlock''))] b)]"

text \<open>
  \<open>bootstrap\<close>: a throw before the \<open>try\<close> block rejects the call; one inside it is
  logged and attached to the \<open>cleanup\<close> signal, and the call resolves.
\<close>

definition bootstrap :: "collaborators \<Rightarrow> string \<Rightarrow> step" where
  "bootstrap env alias b0 =
     (case preamble env of
        Some err \<Rightarrow> (b0, Some err)
      | None \<Rightarrow>
          (let b1 = (if rebuilding (chain_options b0)
                     then b0\<lparr>chain_options := (chain_options b0)
                               \<lparr>options_broadcasts_active := False,
                                options_syncing_active := False\<rparr>\<rparr>
                     else b0)
           in case bootstrap_try env alias b1 of
                (b2, None) \<Rightarrow> (b2, None)
              | (b2, Some err) \<Rightarrow> run [emit LogFatal, emit (EmitCleanup (Some err))] b2))"

section \<open>Concrete inputs\<close>

definition peer_with :: "string \<Rightarrow> string option \<Rightarrow> peer" where
  "peer_with alias bh = \<lparr>peer_modules = Some [alias \<mapsto> \<lparr>broadhash = bh, height = None\<rparr>]\<rparr>"

definition example_Peers :: Peers where
  "example_Peers =
     \<lparr>moduleAlias = ''leasehold_chain'', forgingForce = False, minBroadhashConsensus = Finite 51\<rparr>"

text \<open>Five connected peers: three run this chain, two of them on its broadhash.\<close>

definition example_channel :: channel where
  "example_channel =
     \<lparr>getApplicationState =
        \<lparr>app_modules = [''leasehold_chain'' \<mapsto> \<lparr>broadhash = Some ''aa'', height = Some 7\<rparr>]\<rparr>,
      getConnectedPeers =
        [peer_with ''leasehold_chain'' (Some ''aa''),
         \<lparr>peer_modules = None\<rparr>,
         peer_with ''leasehold_chain'' (Some ''bb''),
         peer_with ''other_chain'' (Some ''aa''),
         peer_with ''leasehold_chain'' (Some ''aa'')]\<rparr>"

text \<open>The same application state with no peer connected.\<close>

definition lonely_channel :: channel where
  "lonely_channel = example_channel\<lparr>getConnectedPeers := []\<rparr>"

text \<open>A comma-separated list of \<open>n + 1\<close> ids.\<close>

fun many_ids :: "nat \<Rightarrow> string" where
  "many_ids 0 = ''7''"
| "many_ids (Suc n) = ''7,'' @ many_ids n"

text \<open>A store with one block, whose id is \<open>2\<close>.\<close>

definition example_rows :: "block_row list" where
  "example_rows =
     [\<lparr>row_id = ''2'', row_height = 5, row_previousBlockId = Some ''9'', row_timestamp = 40\<rparr>]"

text \<open>
  A transport over a pool of transaction ids and a chain given by its height, with
  receiving switched off. Instances and blocks are their ids.
\<close>

definition example_Transport ::
  "(string, string, transactionJSON option list, string, nat, string list) Transport" where
  "example_Transport =
     \<lparr>broadcasts_active = False,
      fromJson = (\<lambda>j. case j of
                        None \<Rightarrow> Inl (Error ''no transaction'')
                      | Some t \<Rightarrow> (case json_id t of
                                     None \<Rightarrow> Inl (Error ''no id'')
                                   | Some i \<Rightarrow> Inr i)),
      transaction_id = (\<lambda>i. i),
      composedTransactionsCheck = (\<lambda>c tx. Inr (if tx = [] then [''empty id''] else [])),
      processUnconfirmedTransaction =
        (\<lambda>tx b p. if tx \<in> set p then (Some (Error ''duplicate''), p) else (None, tx # p)),
      convertErrorsToString =
        (\<lambda>e. case e of Error m \<Rightarrow> m | TypeError m \<Rightarrow> m | Errors ms \<Rightarrow> concat ms),
      validate_WSTransactionsRequest = (\<lambda>q. []),
      query_transactions = Some,
      validate_WSBlocksBroadcast = (\<lambda>q. if q = [] then [''block required''] else []),
      normalizeBlock = Inr,
      block_id = (\<lambda>b. b),
      syncing = (\<lambda>c. False),
      receiveBlockFromNetwork = (\<lambda>b c p. (None, Suc c, p)),
      getMergedTransactionList = (\<lambda>reverse limit p. take limit p),
      maxSharedTransactions = 25\<rparr>"

definition example_json :: transactionJSON where
  "example_json =
     \<lparr>json_id = Some ''123'', json_signatures = Some [SigObject (Some ''ab''), SigString ''cd''],
      json_bundled = False, json_rest = []\<rparr>"

definition example_node :: "(nat, string list) node" where
  "example_node = \<lparr>chain = 10, pool = [''77''], effects = []\<rparr>"

text \<open>
  Libraries small enough to compute with: the bytes of a transaction are its id, hex
  key, amount, recipient and asset data in a row, the hash reverses them, a signature
  verifies under a key when it is the key, a colon and the hash, and the wallet \<open>WL\<close>
  has the members \<open>P\<close> and \<open>Q\<close>.
\<close>

definition example_Chain :: Chain where
  "example_Chain =
     \<lparr>toString_utf8 = (\<lambda>b. b),
      toString_hex = (\<lambda>b. concat (map (\<lambda>c. if c = CHR ''k'' then ''6b'' else ''00'') b)),
      hash = rev,
      getTransactionBytes =
        (\<lambda>t. hash_id t @ ''|'' @ hash_senderPublicKey t @ ''|'' @ hash_amount t @ ''|''
              @ (case hash_recipientId t of None \<Rightarrow> [] | Some r \<Rightarrow> r) @ ''|''
              @ (case hash_asset_data t of None \<Rightarrow> [] | Some d \<Rightarrow> d)),
      verifyData = (\<lambda>h sig publicKey. sig = publicKey @ '':'' @ h),
      getAddressFromPublicKey = (\<lambda>publicKey. publicKey @ ''L''),
      getMultisigWalletMembers =
        (\<lambda>walletAddress. if walletAddress = ''WL'' then Inr [''P'', ''Q''] else Inr [])\<rparr>"

text \<open>
  A transfer of the wallet \<open>WL\<close> signed by \<open>Q\<close> and by \<open>P\<close>, with a third entry that
  is no signature; and the same row with other transfer data, under which none of the
  three verifies any more.
\<close>

definition example_txn :: stored_transaction where
  "example_txn =
     \<lparr>txn_id = ''1'', txn_type = 0, senderId = ''WL'', senderPublicKey = Some ''k'',
      timestamp = 100, recipientId = Some ''RL'', amount = ''5'', blockId = ''9'',
      transferData = Some ''hi'',
      signatures = Some ''Q:ih|LR|5|b6|1,P:ih|LR|5|b6|1,zz''\<rparr>"

definition altered_txn :: stored_transaction where
  "altered_txn = example_txn\<lparr>transferData := Some ''yo''\<rparr>"

text \<open>A bootstrap in which every call returns, and a chain asked to rebuild up to round 12.\<close>

definition all_fine :: collaborators where
  "all_fine =
     \<lparr>preamble = None, genesisBlock = True, createCacheComponent = None,
      createStorageComponent = None, bootstrapStorage = None, bootstrapCache = None,
      defineSchema = None, applyAll = None, initModules = None, loadBlockChain = None,
      loadDelegates = None\<rparr>"

definition rebuild_state :: chain_state where
  "rebuild_state =
     \<lparr>chain_options = \<lparr>rebuildUpToRound = Some 12, options_broadcasts_active = True,
                        options_syncing_active = True\<rparr>,
      events = []\<rparr>"

text \<open>
  The transport as \<open>_initModules\<close> builds it in a rebuild run: its \<open>broadcasts.active\<close>
  is the option \<open>bootstrap\<close> has set.
\<close>

definition rebuild_Transport ::
  "(string, string, transactionJSON option list, string, nat, string list) Transport" where
  "rebuild_Transport =
     example_Transport
       \<lparr>broadcasts_active :=
          options_broadcasts_active
            (chain_options (fst (bootstrap all_fine ''leasehold_chain'' rebuild_state)))\<rparr>"

section \<open>Broadhash consensus\<close>


lemma calculateConsensus_value:
  assumes "app_modules (getApplicationState ch) (moduleAlias this) = Some moduleInfo"
    and "active = activePeers (moduleAlias this) (getConnectedPeers ch)"
    and "matched = matchingPeers (moduleAlias this) (broadhash moduleInfo) active"
    and "a = min (length active) MAX_PEERS"
    and "m = min (length matched) MAX_PEERS"
    and "0 < a"
  shows "calculateConsensus this ch =
         Finite (rat_of_int \<lfloor>rat_of_nat (m * 10000) / rat_of_nat a + 1 / 2\<rfloor> / 100)"
proof -
  have "calculateConsensus this ch =
        (if a = 0 then Finite 0
         else js_div (Math_round (js_div (Finite (rat_of_nat (m * 10000))) (rat_of_nat a))) 100)"
    by (simp only: calculateConsensus_def Let_def assms(1-5) option.case)
  also have "\<dots> = js_div (Math_round (js_div (Finite (rat_of_nat (m * 10000))) (rat_of_nat a))) 100"
    using assms(6) by simp
  also have "js_div (Finite (rat_of_nat (m * 10000))) (rat_of_nat a)
             = Finite (rat_of_nat (m * 10000) / rat_of_nat a)"
    using assms(6) by (simp only: js_div.simps of_nat_eq_0_iff) simp
  also have "js_div (Math_round (Finite (rat_of_nat (m * 10000) / rat_of_nat a))) 100
             = Finite (rat_of_int \<lfloor>rat_of_nat (m * 10000) / rat_of_nat a + 1 / 2\<rfloor> / 100)"
    by (simp only: Math_round.simps js_div.simps) simp
  finally show ?thesis .
qed



lemma calculateConsensus_value_finite: "\<exists>r. calculateConsensus this ch = Finite r"
proof (cases "app_modules (getApplicationState ch) (moduleAlias this)")
  case None
  then show ?thesis by (simp add: calculateConsensus_def)
next
  case (Some moduleInfo)
  show ?thesis
  proof (cases "activePeers (moduleAlias this) (getConnectedPeers ch) = []")
    case True
    then show ?thesis by (simp add: calculateConsensus_def Let_def Some)
  next
    case False
    then have "0 < min (length (activePeers (moduleAlias this) (getConnectedPeers ch))) MAX_PEERS"
      by (simp add: MAX_PEERS_def)
    from calculateConsensus_value [OF Some refl refl refl refl this]
    show ?thesis by blast
  qed
qed



text \<open>
  C7. \<open>isPoorConsensus\<close> is false when \<open>forgingForce\<close> is set, and otherwise true exactly
  when the consensus is strictly less than \<open>minBroadhashConsensus\<close>.
\<close>

theorem isPoorConsensus_spec:
  "isPoorConsensus this bh ch =
     (\<not> forgingForce this \<and> js_less (calculateConsensus this ch) (minBroadhashConsensus this))
   \<and> (forgingForce this \<longrightarrow> \<not> isPoorConsensus this bh ch)
   \<and> (\<forall>t. \<not> forgingForce this \<and> minBroadhashConsensus this = Finite t \<longrightarrow>
          isPoorConsensus this bh ch = (\<exists>r. calculateConsensus this ch = Finite r \<and> r < t))"
proof -
  obtain r where r: "calculateConsensus this ch = Finite r"
    using calculateConsensus_value_finite by blast
  show ?thesis by (auto simp: isPoorConsensus_def r)
qed

theorem isPoorConsensus_spec_witness:
  "isPoorConsensus example_Peers (Some ''aa'') example_channel =
     (\<exists>r. calculateConsensus example_Peers example_channel = Finite r \<and> r < 51)
   \<and> \<not> isPoorConsensus (example_Peers\<lparr>forgingForce := True\<rparr>) (Some ''aa'') example_channel"
proof -
  have "\<not> forgingForce example_Peers \<and> minBroadhashConsensus example_Peers = Finite 51"
    by (simp add: example_Peers_def)
  with isPoorConsensus_spec [of example_Peers "Some ''aa''" example_channel]
  have unforced: "isPoorConsensus example_Peers (Some ''aa'') example_channel =
     (\<exists>r. calculateConsensus example_Peers example_channel = Finite r \<and> r < 51)"
    by blast
  have "forgingForce (example_Peers\<lparr>forgingForce := True\<rparr>)"
    by simp
  with isPoorConsensus_spec [of "example_Peers\<lparr>forgingForce := True\<rparr>" "Some ''aa''" example_channel]
  have forced: "\<not> isPoorConsensus (example_Peers\<lparr>forgingForce := True\<rparr>) (Some ''aa'') example_channel"
    by blast
  from unforced forced show ?thesis by blast
qed

text \<open>
  C8. \<open>getLastConsensus\<close> returns what \<open>calculateConsensus\<close> computes in the state of the
  call, whatever broadhash it is given; the \<open>Peers\<close> object holds no earlier result.
\<close>

theorem getLastConsensus_forwards:
  "getLastConsensus this bh ch = calculateConsensus this ch"
  by (simp add: getLastConsensus_def)

text \<open>
  C9. \<open>calculateConsensus\<close> always returns a finite number, never the \<open>NaN\<close> or infinity
  of a division by zero: it is 0 when the application state does not know the module and
  0 when no connected peer advertises it.
\<close>

theorem calculateConsensus_total:
  "(\<exists>r. calculateConsensus this ch = Finite r)
   \<and> (app_modules (getApplicationState ch) (moduleAlias this) = None
        \<longrightarrow> calculateConsensus this ch = Finite 0)
   \<and> (activePeers (moduleAlias this) (getConnectedPeers ch) = []
        \<longrightarrow> calculateConsensus this ch = Finite 0)"
proof -
  have absent: "calculateConsensus this ch = Finite 0"
    if "app_modules (getApplicationState ch) (moduleAlias this) = None"
    using that by (simp add: calculateConsensus_def)
  have inactive: "calculateConsensus this ch = Finite 0"
    if "activePeers (moduleAlias this) (getConnectedPeers ch) = []"
    using that by (simp add: calculateConsensus_def Let_def split: option.splits)
  from calculateConsensus_value_finite absent inactive show ?thesis by blast
qed

theorem calculateConsensus_total_witness:
  "calculateConsensus example_Peers lonely_channel = Finite 0
   \<and> calculateConsensus (example_Peers\<lparr>moduleAlias := ''unknown''\<rparr>) example_channel = Finite 0"
  using calculateConsensus_total [of example_Peers lonely_channel]
    calculateConsensus_total [of "example_Peers\<lparr>moduleAlias := ''unknown''\<rparr>" example_channel]
  by (simp add: example_Peers_def example_channel_def lonely_channel_def activePeers_def)

section \<open>The common-block query\<close>

lemma js_split_nonempty: "js_split sep s \<noteq> []"
  by (induction s) (auto split: list.splits)

lemma length_js_split: "length (js_split sep s) = Suc (length (filter (\<lambda>c. c = sep) s))"
  by (induction s) (auto split: list.splits)

lemma length_js_split_many_ids: "length (js_split (CHR '','') (many_ids n)) = Suc n"
  by (induction n) simp_all

text \<open>
  C1, as the code has it. A query within the limit of 1000 values that passes the schema
  and has a numeric value after quote-stripping is answered from one lookup, for the
  first numeric value: \<open>common\<close> is the first row the store returns for that id
  (\<open>id\<close>, \<open>height\<close>, \<open>previousBlock\<close>, \<open>timestamp\<close>), or \<open>null\<close> when it returns none.
\<close>

theorem blocksCommon_first_id:
  assumes "ids query = Some s"
    and "length (js_split (CHR '','') s) \<le> 1000"
    and "validate query = []"
    and "filter is_numeric (js_split (CHR '','') (remove_quotes s)) = id0 # others"
    and "Block_get id0 = Inr rows"
  shows "blocksCommon validate Block_get (Some query) =
         (Inr \<lparr>success = True,
               common = (case rows of
                           [] \<Rightarrow> None
                         | row # _ \<Rightarrow>
                             Some \<lparr>common_id = row_id row, common_height = row_height row,
                                   common_previousBlock = row_previousBlockId row,
                                   common_timestamp = row_timestamp row\<rparr>)\<rparr>,
          [BlockGet id0])"
  using assms by (simp add: blocksCommon_def split: list.splits)

theorem blocksCommon_first_id_witness:
  "blocksCommon (\<lambda>q. []) (rows_by_id example_rows) (Some \<lparr>ids = Some ''x,2,1''\<rparr>) =
     (Inr \<lparr>success = True,
           common = Some \<lparr>common_id = ''2'', common_height = 5,
                           common_previousBlock = Some ''9'', common_timestamp = 40\<rparr>\<rparr>,
      [BlockGet ''2''])"
  using blocksCommon_first_id [of "\<lparr>ids = Some ''x,2,1''\<rparr>" "''x,2,1''" "\<lambda>q. []" "''2''" "[''1'']"
          "rows_by_id example_rows" example_rows]
  by (simp add: rows_by_id_def example_rows_def is_numeric_def remove_quotes_def)

text \<open>
  C1, as stated, fails: with the ids \<open>1,2\<close> and a store whose only block has the id
  \<open>2\<close>, the second candidate matches a stored block, yet the answer is \<open>common: null\<close>
  after a single lookup of the id \<open>1\<close>.
\<close>

theorem blocksCommon_any_id_counterexample:
  "blocksCommon (\<lambda>q. []) (rows_by_id example_rows) (Some \<lparr>ids = Some ''1,2''\<rparr>) =
     (Inr \<lparr>success = True, common = None\<rparr>, [BlockGet ''1''])
   \<and> filter is_numeric (js_split (CHR '','') (remove_quotes ''1,2'')) = [''1'', ''2'']
   \<and> rows_by_id example_rows ''2'' = Inr example_rows
   \<and> example_rows \<noteq> []"
  by (simp add: blocksCommon_def rows_by_id_def example_rows_def is_numeric_def remove_quotes_def)

text \<open>
  C4. A query whose \<open>ids\<close> string splits on commas into more than 1000 values throws
  the error \<open>ids property contains more than 1000 values\<close>, and nothing is logged or
  looked up in the store.
\<close>

theorem blocksCommon_too_many_ids:
  assumes "ids query = Some s"
    and "1000 < length (js_split (CHR '','') s)"
  shows "blocksCommon validate Block_get (Some query) =
         (Inl (Error ''ids property contains more than 1000 values''), [])"
proof -
  have "s \<noteq> []" using assms(2) by auto
  then show ?thesis using assms by (simp add: blocksCommon_def)
qed

theorem blocksCommon_too_many_ids_witness:
  "blocksCommon (\<lambda>q. []) (rows_by_id example_rows) (Some \<lparr>ids = Some (many_ids 1000)\<rparr>) =
   (Inl (Error ''ids property contains more than 1000 values''), [])"
  using blocksCommon_too_many_ids [of "\<lparr>ids = Some (many_ids 1000)\<rparr>" "many_ids 1000"
          "\<lambda>q. []" "rows_by_id example_rows"]
  by (simp add: length_js_split_many_ids)

section \<open>Inbound transactions and blocks\<close>

lemma receiveTransaction_Inr:
  assumes "receiveTransaction this j st = (Inr i, st')"
  shows "\<exists>tx. fromJson this j = Inr tx \<and> i = transaction_id this tx
              \<and> composedTransactionsCheck this (chain st) tx = Inr []
              \<and> processUnconfirmedTransaction this tx True (pool st) = (None, pool st')
              \<and> chain st' = chain st"
  using assms
  by (auto simp: receiveTransaction_def Let_def log_effect_def
           split: sum.splits list.splits prod.splits option.splits)

text \<open>
  C5. \<open>postTransaction\<close> has two outcomes. It returns \<open>success: true\<close> with the id of
  the transaction instance built from the sanitized input, which the pool has accepted;
  or it throws an error named \<open>InvalidTransactionError\<close> whose message is
  \<open>convertErrorsToString\<close> of what the attempt threw. A returned value never reports a
  failure.
\<close>

theorem postTransaction_outcome:
  "(case postTransaction this query st of
      (Inr response, st') \<Rightarrow>
        post_success response
        \<and> (\<exists>q t tx. query = Some q \<and> transaction q = Some t
              \<and> fromJson this
                   (Some (t\<lparr>json_signatures :=
                              map_option (map sanitize_signature) (json_signatures t)\<rparr>)) = Inr tx
              \<and> transactionId response = transaction_id this tx
              \<and> processUnconfirmedTransaction this tx True (pool st) = (None, pool st'))
    | (Inl err, st') \<Rightarrow>
        error_name err = ''InvalidTransactionError''
        \<and> error_type err = ''InvalidActionError''
        \<and> (\<exists>errors. postTransaction_try this query st = (Inl errors, st')
              \<and> error_message err = convertErrorsToString this errors))"
proof (cases "postTransaction_try this query st")
  case (Pair result st')
  show ?thesis
  proof (cases result)
    case (Inl errors)
    with Pair show ?thesis by (simp add: postTransaction_def)
  next
    case (Inr i)
    with Pair have body: "postTransaction_try this query st = (Inr i, st')" by simp
    then obtain q t where q: "query = Some q" and t: "transaction q = Some t"
      and recv: "receiveTransaction this
                   (Some (t\<lparr>json_signatures :=
                              map_option (map sanitize_signature) (json_signatures t)\<rparr>)) st
                 = (Inr i, st')"
      by (auto simp: postTransaction_try_def split: option.splits)
    from receiveTransaction_Inr [OF recv] q t body show ?thesis
      by (auto simp: postTransaction_def)
  qed
qed

theorem postTransaction_outcome_witness:
  "fst (postTransaction example_Transport (Some \<lparr>transaction = Some example_json\<rparr>) example_node)
     = Inr \<lparr>post_success = True, transactionId = ''123''\<rparr>
   \<and> fst (postTransaction example_Transport (Some \<lparr>transaction = None\<rparr>) example_node)
     = Inl \<lparr>error_name = ''InvalidTransactionError'', error_type = ''InvalidActionError'',
            error_message = ''Cannot read property signatures of undefined''\<rparr>"
  using postTransaction_outcome [of example_Transport "Some \<lparr>transaction = Some example_json\<rparr>" example_node]
    postTransaction_outcome [of example_Transport "Some \<lparr>transaction = None\<rparr>" example_node]
  by (simp add: postTransaction_def postTransaction_try_def receiveTransaction_def Let_def
        log_effect_def example_Transport_def example_json_def example_node_def)

text \<open>
  C6. With \<open>broadcasts.active\<close> false, \<open>postBlock\<close> and \<open>postTransactions\<close> return at
  once: the only effect is one debug line, so no schema validation runs, the blocks
  module and the pool are not called, and chain and pool are as before.
\<close>

theorem broadcasts_inactive_frame:
  assumes "\<not> broadcasts_active this"
  shows "postBlock this empty_query block_query st =
           (Inr (), st\<lparr>effects := effects st
                          @ [LogDebug ''Receiving blocks disabled by user through config.json'']\<rparr>)
       \<and> postTransactions this transactions_query st =
           (Inr (), st\<lparr>effects := effects st
                          @ [LogDebug ''Receiving transactions disabled by user through config.json'']\<rparr>)
       \<and> chain (snd (postBlock this empty_query block_query st)) = chain st
       \<and> pool (snd (postBlock this empty_query block_query st)) = pool st
       \<and> chain (snd (postTransactions this transactions_query st)) = chain st
       \<and> pool (snd (postTransactions this transactions_query st)) = pool st"
  using assms by (simp add: postBlock_def postTransactions_def log_effect_def)

theorem broadcasts_inactive_frame_witness:
  "postBlock example_Transport [] (Some []) example_node =
     (Inr (), example_node\<lparr>effects :=
                 [LogDebug ''Receiving blocks disabled by user through config.json'']\<rparr>)
   \<and> postTransactions example_Transport (Some [Some example_json]) example_node =
     (Inr (), example_node\<lparr>effects :=
                 [LogDebug ''Receiving transactions disabled by user through config.json'']\<rparr>)"
  using broadcasts_inactive_frame [of example_Transport "[]" "Some []" example_node
          "Some [Some example_json]"]
  by (simp add: example_Transport_def example_node_def)

section \<open>Sanitized transactions\<close>

lemma signers_of_map:
  assumes "toHash this txn = Inr h" and "[] \<notin> set members"
  shows "signers_of this txn members sigs =
         Inr (map (\<lambda>sig. \<lparr>signerAddress =
                               map_option (getAddressFromPublicKey this)
                                 (find (\<lambda>publicKey.
                                          verifyData this (hash this (getTransactionBytes this h))
                                            sig publicKey) members),
                            signature = sig\<rparr>) sigs)"
proof (induction sigs)
  case Nil
  show ?case by simp
next
  case (Cons sig sigs)
  have "findMultisigMemberWalletAddress this txn sig members =
        Inr (map_option (getAddressFromPublicKey this)
               (find (\<lambda>publicKey. verifyData this (hash this (getTransactionBytes this h))
                                     sig publicKey) members))"
  proof (cases "find (\<lambda>publicKey. verifyData this (hash this (getTransactionBytes this h))
                                     sig publicKey) members")
    case None
    then show ?thesis using assms(1) by (simp add: findMultisigMemberWalletAddress_def)
  next
    case (Some publicKey)
    then have "publicKey \<in> set members" by (auto simp: find_Some_iff)
    with assms(2) have "publicKey \<noteq> []" by auto
    with Some show ?thesis using assms(1) by (simp add: findMultisigMemberWalletAddress_def)
  qed
  with Cons.IH show ?case by simp
qed

lemma sanitizeTransaction_message:
  "sanitizeTransaction this txn = Inr newTxn \<Longrightarrow>
   new_message newTxn = map_option (toString_utf8 this) (transferData txn)"
  by (auto simp: sanitizeTransaction_def Let_def split: if_splits sum.splits)

lemma sanitizeTransaction_signers:
  assumes "txn_type txn = 0" and "signatures txn = Some s" and "s \<noteq> []"
    and "toHash this txn = Inr h"
    and "getMultisigWalletMembers this (senderId txn) = Inr members"
    and "[] \<notin> set members"
  shows "\<exists>newTxn. sanitizeTransaction this txn = Inr newTxn
           \<and> new_signatures newTxn =
               Signers (map (\<lambda>sig. \<lparr>signerAddress =
                                         map_option (getAddressFromPublicKey this)
                                           (find (\<lambda>publicKey.
                                                    verifyData this
                                                      (hash this (getTransactionBytes this h))
                                                      sig publicKey) members),
                                      signature = sig\<rparr>) (js_split (CHR '','') s))"
  using assms signers_of_map [OF assms(4,6), of "js_split (CHR '','') s"]
  by (simp add: sanitizeTransaction_def Let_def truthy_def)

lemma sanitizeTransaction_plain:
  assumes "\<not> (txn_type txn = 0 \<and> truthy (signatures txn))"
  shows "\<exists>newTxn. sanitizeTransaction this txn = Inr newTxn"
  using assms by (auto simp: sanitizeTransaction_def Let_def)

lemma toHash_present:
  assumes "senderPublicKey txn = Some publicKey"
  shows "toHash this txn =
         Inr \<lparr>hash_id = txn_id txn, hash_type = txn_type txn, hash_senderId = senderId txn,
              hash_senderPublicKey = toString_hex this publicKey,
              hash_timestamp = timestamp txn, hash_recipientId = recipientId txn,
              hash_amount = amount txn, hash_blockId = blockId txn,
              hash_transferData = transferData txn,
              hash_asset_data = map_option (toString_utf8 this) (transferData txn)\<rparr>"
  using assms by (simp add: toHash_def)

text \<open>
  C3. Let every row of type 0 with a truthy \<open>signatures\<close> column have a sender public key
  and a wallet whose member keys can be read and are not empty. Then sanitization returns
  one transaction per row, in order. In each, \<open>message\<close> is the transfer data as utf-8
  text when the row has some; and for a row of type 0 with truthy \<open>signatures\<close>, the new
  \<open>signatures\<close> pairs every comma-separated signature with the address of the first member
  key under which it verifies, or with \<open>null\<close> when it verifies under none. What a
  signature is verified against is the hash of the bytes of this object: the row without
  its \<open>signatures\<close>, with the sender's public key in hex and with the transfer data as
  utf-8 text in \<open>asset.data\<close>.
\<close>

theorem sanitizeTransactions_multisig:
  assumes "\<forall>txn \<in> set txns. txn_type txn = 0 \<and> truthy (signatures txn) \<longrightarrow>
             senderPublicKey txn \<noteq> None
             \<and> (\<exists>members. getMultisigWalletMembers this (senderId txn) = Inr members
                    \<and> [] \<notin> set members)"
  shows "\<exists>newTxns. sanitizeTransactions this txns = Inr newTxns
           \<and> length newTxns = length txns
           \<and> (\<forall>i < length txns.
                 new_message (newTxns ! i) =
                   map_option (toString_utf8 this) (transferData (txns ! i))
                 \<and> (txn_type (txns ! i) = 0 \<and> truthy (signatures (txns ! i)) \<longrightarrow>
                      (\<exists>members s senderKey.
                          getMultisigWalletMembers this (senderId (txns ! i)) = Inr members
                          \<and> signatures (txns ! i) = Some s
                          \<and> senderPublicKey (txns ! i) = Some senderKey
                          \<and> new_signatures (newTxns ! i) =
                              Signers (map (\<lambda>sig. \<lparr>signerAddress =
                                 map_option (getAddressFromPublicKey this)
                                   (find (\<lambda>publicKey.
                                      verifyData this
                                        (hash this (getTransactionBytes this
                                           \<lparr>hash_id = txn_id (txns ! i),
                                            hash_type = txn_type (txns ! i),
                                            hash_senderId = senderId (txns ! i),
                                            hash_senderPublicKey = toString_hex this senderKey,
                                            hash_timestamp = timestamp (txns ! i),
                                            hash_recipientId = recipientId (txns ! i),
                                            hash_amount = amount (txns ! i),
                                            hash_blockId = blockId (txns ! i),
                                            hash_transferData = transferData (txns ! i),
                                            hash_asset_data =
                                              map_option (toString_utf8 this)
                                                (transferData (txns ! i))\<rparr>))
                                        sig publicKey) members),
                               signature = sig\<rparr>) (js_split (CHR '','') s)))))"
proof -
  define hashed where "hashed txn senderKey =
      \<lparr>hash_id = txn_id txn, hash_type = txn_type txn, hash_senderId = senderId txn,
       hash_senderPublicKey = toString_hex this senderKey,
       hash_timestamp = timestamp txn, hash_recipientId = recipientId txn,
       hash_amount = amount txn, hash_blockId = blockId txn,
       hash_transferData = transferData txn,
       hash_asset_data = map_option (toString_utf8 this) (transferData txn)\<rparr>"
    for txn :: stored_transaction and senderKey :: Buffer
  define R where "R txn newTxn \<longleftrightarrow>
      new_message newTxn = map_option (toString_utf8 this) (transferData txn)
      \<and> (txn_type txn = 0 \<and> truthy (signatures txn) \<longrightarrow>
           (\<exists>members s senderKey.
               getMultisigWalletMembers this (senderId txn) = Inr members
               \<and> signatures txn = Some s
               \<and> senderPublicKey txn = Some senderKey
               \<and> new_signatures newTxn =
                   Signers (map (\<lambda>sig. \<lparr>signerAddress =
                                  map_option (getAddressFromPublicKey this)
                                    (find (\<lambda>publicKey.
                                             verifyData this
                                               (hash this (getTransactionBytes this
                                                  (hashed txn senderKey)))
                                               sig publicKey) members),
                                signature = sig\<rparr>) (js_split (CHR '','') s))))"
    for txn :: stored_transaction and newTxn :: sanitized_transaction
  have one: "\<exists>newTxn. sanitizeTransaction this txn = Inr newTxn \<and> R txn newTxn"
    if ok: "txn_type txn = 0 \<and> truthy (signatures txn) \<longrightarrow>
             senderPublicKey txn \<noteq> None
             \<and> (\<exists>members. getMultisigWalletMembers this (senderId txn) = Inr members
                    \<and> [] \<notin> set members)" for txn
  proof (cases "txn_type txn = 0 \<and> truthy (signatures txn)")
    case False
    then obtain newTxn where "sanitizeTransaction this txn = Inr newTxn"
      using sanitizeTransaction_plain by blast
    with False sanitizeTransaction_message show ?thesis
      unfolding R_def by blast
  next
    case True
    then obtain s where s: "signatures txn = Some s" "s \<noteq> []"
      by (auto simp: truthy_def split: option.splits)
    from True ok obtain senderKey members
      where pk: "senderPublicKey txn = Some senderKey"
        and members: "getMultisigWalletMembers this (senderId txn) = Inr members"
                     "[] \<notin> set members"
      by auto
    have h: "toHash this txn = Inr (hashed txn senderKey)"
      unfolding hashed_def by (rule toHash_present [OF pk])
    from True have type0: "txn_type txn = 0" by simp
    from sanitizeTransaction_signers [OF type0 s h members]
    obtain newTxn where new: "sanitizeTransaction this txn = Inr newTxn"
      and sigs: "new_signatures newTxn =
               Signers (map (\<lambda>sig. \<lparr>signerAddress =
                                         map_option (getAddressFromPublicKey this)
                                           (find (\<lambda>publicKey.
                                                    verifyData this
                                                      (hash this (getTransactionBytes this
                                                         (hashed txn senderKey)))
                                                      sig publicKey) members),
                                      signature = sig\<rparr>) (js_split (CHR '','') s))"
      by blast
    from sanitizeTransaction_message [OF new] sigs s(1) pk members(1)
    have "R txn newTxn" unfolding R_def by blast
    with new show ?thesis by blast
  qed
  from assms have "\<exists>newTxns. sanitizeTransactions this txns = Inr newTxns \<and> list_all2 R txns newTxns"
  proof (induction txns)
    case Nil
    show ?case by simp
  next
    case (Cons txn txns)
    from Cons.prems one [of txn] obtain newTxn
      where head: "sanitizeTransaction this txn = Inr newTxn" "R txn newTxn"
      by auto
    from Cons.IH Cons.prems obtain rest
      where tail: "sanitizeTransactions this txns = Inr rest" "list_all2 R txns rest"
      by auto
    from head tail show ?case by simp
  qed
  then obtain newTxns where res: "sanitizeTransactions this txns = Inr newTxns"
    and rel: "list_all2 R txns newTxns"
    by blast
  from rel have len: "length newTxns = length txns"
    by (simp add: list_all2_lengthD)
  from rel have "\<forall>i < length txns. R (txns ! i) (newTxns ! i)"
    by (simp add: list_all2_nthD)
  with res len show ?thesis unfolding R_def hashed_def by blast
qed

theorem sanitizeTransactions_multisig_witness:
  "\<exists>newTxns. sanitizeTransactions example_Chain [example_txn, altered_txn] = Inr newTxns
     \<and> length newTxns = 2
     \<and> new_message (newTxns ! 0) = Some ''hi''
     \<and> new_signatures (newTxns ! 0) =
         Signers [\<lparr>signerAddress = Some ''QL'', signature = ''Q:ih|LR|5|b6|1''\<rparr>,
                  \<lparr>signerAddress = Some ''PL'', signature = ''P:ih|LR|5|b6|1''\<rparr>,
                  \<lparr>signerAddress = None, signature = ''zz''\<rparr>]
     \<and> new_message (newTxns ! 1) = Some ''yo''
     \<and> new_signatures (newTxns ! 1) =
         Signers [\<lparr>signerAddress = None, signature = ''Q:ih|LR|5|b6|1''\<rparr>,
                  \<lparr>signerAddress = None, signature = ''P:ih|LR|5|b6|1''\<rparr>,
                  \<lparr>signerAddress = None, signature = ''zz''\<rparr>]"
proof -
  have "\<forall>txn \<in> set [example_txn, altered_txn]. txn_type txn = 0 \<and> truthy (signatures txn) \<longrightarrow>
             senderPublicKey txn \<noteq> None
             \<and> (\<exists>members. getMultisigWalletMembers example_Chain (senderId txn) = Inr members
                    \<and> [] \<notin> set members)"
    by (simp add: example_txn_def altered_txn_def example_Chain_def)
  from sanitizeTransactions_multisig [OF this]
  obtain newTxns
    where res: "sanitizeTransactions example_Chain [example_txn, altered_txn] = Inr newTxns"
      and len: "length newTxns = length [example_txn, altered_txn]"
      and each: "\<forall>i < length [example_txn, altered_txn].
                 new_message (newTxns ! i) =
                   map_option (toString_utf8 example_Chain)
                     (transferData ([example_txn, altered_txn] ! i))
                 \<and> (txn_type ([example_txn, altered_txn] ! i) = 0
                      \<and> truthy (signatures ([example_txn, altered_txn] ! i)) \<longrightarrow>
                      (\<exists>members s senderKey.
                          getMultisigWalletMembers example_Chain
                            (senderId ([example_txn, altered_txn] ! i)) = Inr members
                          \<and> signatures ([example_txn, altered_txn] ! i) = Some s
                          \<and> senderPublicKey ([example_txn, altered_txn] ! i) = Some senderKey
                          \<and> new_signatures (newTxns ! i) =
                              Signers (map (\<lambda>sig. \<lparr>signerAddress =
                                 map_option (getAddressFromPublicKey example_Chain)
                                   (find (\<lambda>publicKey.
                                      verifyData example_Chain
                                        (hash example_Chain (getTransactionBytes example_Chain
                                           \<lparr>hash_id = txn_id ([example_txn, altered_txn] ! i),
                                            hash_type = txn_type ([example_txn, altered_txn] ! i),
                                            hash_senderId = senderId ([example_txn, altered_txn] ! i),
                                            hash_senderPublicKey = toString_hex example_Chain senderKey,
                                            hash_timestamp = timestamp ([example_txn, altered_txn] ! i),
                                            hash_recipientId = recipientId ([example_txn, altered_txn] ! i),
                                            hash_amount = amount ([example_txn, altered_txn] ! i),
                                            hash_blockId = blockId ([example_txn, altered_txn] ! i),
                                            hash_transferData = transferData ([example_txn, altered_txn] ! i),
                                            hash_asset_data =
                                              map_option (toString_utf8 example_Chain)
                                                (transferData ([example_txn, altered_txn] ! i))\<rparr>))
                                        sig publicKey) members),
                               signature = sig\<rparr>) (js_split (CHR '','') s))))"
    by blast
  have first: "new_message (newTxns ! 0) = Some ''hi''
     \<and> new_signatures (newTxns ! 0) =
         Signers [\<lparr>signerAddress = Some ''QL'', signature = ''Q:ih|LR|5|b6|1''\<rparr>,
                  \<lparr>signerAddress = Some ''PL'', signature = ''P:ih|LR|5|b6|1''\<rparr>,
                  \<lparr>signerAddress = None, signature = ''zz''\<rparr>]"
    using each [rule_format, of 0]
    by (auto simp: example_txn_def altered_txn_def example_Chain_def truthy_def)
  have second: "new_message (newTxns ! 1) = Some ''yo''
     \<and> new_signatures (newTxns ! 1) =
         Signers [\<lparr>signerAddress = None, signature = ''Q:ih|LR|5|b6|1''\<rparr>,
                  \<lparr>signerAddress = None, signature = ''P:ih|LR|5|b6|1''\<rparr>,
                  \<lparr>signerAddress = None, signature = ''zz''\<rparr>]"
    using each [rule_format, of 1]
    by (auto simp: example_txn_def altered_txn_def example_Chain_def truthy_def)
  from res len first second show ?thesis by simp
qed

section \<open>Bootstrap of a rebuild\<close>

lemma rebuild_trace_quiet:
  assumes "rebuilding (chain_options b0)"
    and "events b0 = []"
    and "bootstrap env alias b0 = (b, result)"
  shows "preamble env = None \<longrightarrow>
            \<not> options_broadcasts_active (chain_options b)
            \<and> \<not> options_syncing_active (chain_options b)"
    and "\<forall>x y. InitModules x y \<in> set (events b) \<longrightarrow> \<not> x \<and> \<not> y"
    and "SubscribeToEvents \<notin> set (events b)"
    and "LoadUnconfirmedTransactions \<notin> set (events b)"
    and "LoadDelegates \<notin> set (events b)"
    and "\<forall>job. RegisterJob job \<notin> set (events b)"
    and "\<forall>name. Subscribe name \<in> set (events b) \<longrightarrow> name = ''app:state:updated''"
    and "(\<exists>r. LoadBlockChain r \<in> set (events b)) \<and> loadBlockChain env = None \<longrightarrow>
            result = None \<and> events b \<noteq> [] \<and> last (events b) = EmitCleanup None"
  using assms
  by (auto simp: bootstrap_def bootstrap_try_def Let_def call_def emit_def initModules_step_def
        rebuilding_def
      split: option.splits if_splits prod.splits)

lemma rebuild_trace_run:
  assumes "rebuilding (chain_options b0)"
    and "events b0 = []"
    and "bootstrap env alias b0 = (b, result)"
  shows "preamble env = None \<and> genesisBlock env
            \<and> createCacheComponent env = None \<and> createStorageComponent env = None
            \<and> bootstrapStorage env = None \<and> bootstrapCache env = None
            \<and> defineSchema env = None \<and> initModules env = None
            \<and> loadBlockChain env = None \<longrightarrow>
            result = None
            \<and> events b =
                [CreateCache, CreateStorage, BootstrapStorage, BootstrapCache, DefineSchema,
                 ApplyMigrations]
                @ (case applyAll env of
                     None \<Rightarrow> []
                   | Some err \<Rightarrow> [LogWarn ''Could not apply some migrations''])
                @ [InitModules False False, Subscribe ''app:state:updated'',
                   LoadBlockChain (rebuildUpToRound (chain_options b0)), EmitCleanup None]"
proof (intro impI, elim conjE)
  assume returns: "preamble env = None" "genesisBlock env"
    "createCacheComponent env = None" "createStorageComponent env = None"
    "bootstrapStorage env = None" "bootstrapCache env = None"
    "defineSchema env = None" "initModules env = None" "loadBlockChain env = None"
  show "result = None
       \<and> events b =
           [CreateCache, CreateStorage, BootstrapStorage, BootstrapCache, DefineSchema,
            ApplyMigrations]
           @ (case applyAll env of
                None \<Rightarrow> []
              | Some err \<Rightarrow> [LogWarn ''Could not apply some migrations''])
           @ [InitModules False False, Subscribe ''app:state:updated'',
              LoadBlockChain (rebuildUpToRound (chain_options b0)), EmitCleanup None]"
  proof (cases "applyAll env")
    case None
    with assms returns show ?thesis
      by (auto simp: bootstrap_def bootstrap_try_def Let_def call_def emit_def
            initModules_step_def rebuilding_def split: option.splits)
  next
    case (Some err)
    with assms returns show ?thesis
      by (auto simp: bootstrap_def bootstrap_try_def Let_def call_def emit_def
            initModules_step_def rebuilding_def split: option.splits)
  qed
qed

text \<open>
  C10, as the code has it. When \<open>loading.rebuildUpToRound\<close> is truthy at the start of
  \<open>bootstrap\<close>, then once the statements before the \<open>try\<close> block have passed both
  \<open>broadcasts.active\<close> and \<open>syncing.active\<close> are false, and the modules are initialized
  with both false; the run never subscribes to block or pool events or to a network
  event, never starts the loader and registers no job (sync, consensus, forging). When
  every call up to and including \<open>loadBlockChain\<close> returns, the run is exactly: the
  components and migrations, the modules initialized with both flags false, the
  subscription to the application state, \<open>loadBlockChain\<close> with the round, and the
  \<open>cleanup\<close> signal without an error; and the call resolves.
\<close>

theorem bootstrap_rebuild:
  assumes "rebuilding (chain_options b0)"
    and "events b0 = []"
    and "bootstrap env alias b0 = (b, result)"
  shows "(preamble env = None \<longrightarrow>
            \<not> options_broadcasts_active (chain_options b)
            \<and> \<not> options_syncing_active (chain_options b))
       \<and> (\<forall>x y. InitModules x y \<in> set (events b) \<longrightarrow> \<not> x \<and> \<not> y)
       \<and> SubscribeToEvents \<notin> set (events b)
       \<and> LoadUnconfirmedTransactions \<notin> set (events b)
       \<and> LoadDelegates \<notin> set (events b)
       \<and> (\<forall>job. RegisterJob job \<notin> set (events b))
       \<and> (\<forall>name. Subscribe name \<in> set (events b) \<longrightarrow> name = ''app:state:updated'')
       \<and> ((\<exists>r. LoadBlockChain r \<in> set (events b)) \<and> loadBlockChain env = None \<longrightarrow>
            result = None \<and> events b \<noteq> [] \<and> last (events b) = EmitCleanup None)
       \<and> (preamble env = None \<and> genesisBlock env
            \<and> createCacheComponent env = None \<and> createStorageComponent env = None
            \<and> bootstrapStorage env = None \<and> bootstrapCache env = None
            \<and> defineSchema env = None \<and> initModules env = None
            \<and> loadBlockChain env = None \<longrightarrow>
            result = None
            \<and> events b =
                [CreateCache, CreateStorage, BootstrapStorage, BootstrapCache, DefineSchema,
                 ApplyMigrations]
                @ (case applyAll env of
                     None \<Rightarrow> []
                   | Some err \<Rightarrow> [LogWarn ''Could not apply some migrations''])
                @ [InitModules False False, Subscribe ''app:state:updated'',
                   LoadBlockChain (rebuildUpToRound (chain_options b0)), EmitCleanup None])"
proof -
  note quiet = rebuild_trace_quiet [OF assms]
  note run = rebuild_trace_run [OF assms]
  show ?thesis by (intro conjI) (rule quiet run)+
qed

theorem bootstrap_rebuild_witness:
  "\<not> options_broadcasts_active (chain_options (fst (bootstrap all_fine ''leasehold_chain'' rebuild_state)))
   \<and> \<not> options_syncing_active (chain_options (fst (bootstrap all_fine ''leasehold_chain'' rebuild_state)))
   \<and> snd (bootstrap all_fine ''leasehold_chain'' rebuild_state) = None
   \<and> events (fst (bootstrap all_fine ''leasehold_chain'' rebuild_state)) =
       [CreateCache, CreateStorage, BootstrapStorage, BootstrapCache, DefineSchema,
        ApplyMigrations, InitModules False False, Subscribe ''app:state:updated'',
        LoadBlockChain (Some 12), EmitCleanup None]"
proof -
  have rebuild: "rebuilding (chain_options rebuild_state)"
    by (simp add: rebuilding_def rebuild_state_def)
  have fresh: "events rebuild_state = []"
    by (simp add: rebuild_state_def)
  have fine: "preamble all_fine = None \<and> genesisBlock all_fine
            \<and> createCacheComponent all_fine = None \<and> createStorageComponent all_fine = None
            \<and> bootstrapStorage all_fine = None \<and> bootstrapCache all_fine = None
            \<and> defineSchema all_fine = None \<and> initModules all_fine = None
            \<and> loadBlockChain all_fine = None \<and> applyAll all_fine = None"
    by (simp add: all_fine_def)
  have round: "rebuildUpToRound (chain_options rebuild_state) = Some 12"
    by (simp add: rebuild_state_def)
  have pair: "bootstrap all_fine ''leasehold_chain'' rebuild_state =
      (fst (bootstrap all_fine ''leasehold_chain'' rebuild_state),
       snd (bootstrap all_fine ''leasehold_chain'' rebuild_state))"
    by simp
  note facts = bootstrap_rebuild [OF rebuild fresh pair]
  note flags = facts [THEN conjunct1]
  note run = facts [THEN conjunct2, THEN conjunct2, THEN conjunct2, THEN conjunct2,
                    THEN conjunct2, THEN conjunct2, THEN conjunct2, THEN conjunct2]
  from flags fine
  have off: "\<not> options_broadcasts_active
                 (chain_options (fst (bootstrap all_fine ''leasehold_chain'' rebuild_state)))
             \<and> \<not> options_syncing_active
                 (chain_options (fst (bootstrap all_fine ''leasehold_chain'' rebuild_state)))"
    by simp
  from run fine
  have "snd (bootstrap all_fine ''leasehold_chain'' rebuild_state) = None
        \<and> events (fst (bootstrap all_fine ''leasehold_chain'' rebuild_state)) =
            [CreateCache, CreateStorage, BootstrapStorage, BootstrapCache, DefineSchema,
             ApplyMigrations]
            @ (case applyAll all_fine of
                 None \<Rightarrow> []
               | Some err \<Rightarrow> [LogWarn ''Could not apply some migrations''])
            @ [InitModules False False, Subscribe ''app:state:updated'',
               LoadBlockChain (rebuildUpToRound (chain_options rebuild_state)), EmitCleanup None]"
    by simp
  with fine round off show ?thesis by simp
qed

text \<open>
  C10, as stated, fails in its last clause. In a rebuild run the transport is built with
  \<open>broadcasts.active\<close> false, yet neither \<open>postTransaction\<close> nor the public action
  \<open>getTransactions\<close> tests the flag: a transaction posted during the run is taken into
  the pool, and a peer that asks for the pool's transactions is sent it.
\<close>

theorem rebuild_network_counterexample:
  "rebuilding (chain_options rebuild_state)
   \<and> InitModules False False
       \<in> set (events (fst (bootstrap all_fine ''leasehold_chain'' rebuild_state)))
   \<and> \<not> broadcasts_active rebuild_Transport
   \<and> postTransaction rebuild_Transport (Some \<lparr>transaction = Some example_json\<rparr>) example_node =
       (Inr \<lparr>post_success = True, transactionId = ''123''\<rparr>,
        \<lparr>chain = 10, pool = [''123'', ''77''],
         effects = [FromJson, ComposedTransactionsCheck, LogDebug ''Received transaction 123'',
                    ProcessUnconfirmedTransaction]\<rparr>)
   \<and> isPublic ''getTransactions''
   \<and> getTransactions rebuild_Transport
        (snd (postTransaction rebuild_Transport (Some \<lparr>transaction = Some example_json\<rparr>)
                example_node)) =
       \<lparr>transactions_success = True, transactions = [''123'', ''77'']\<rparr>"
proof -
  have run: "bootstrap all_fine ''leasehold_chain'' rebuild_state =
     (\<lparr>chain_options = \<lparr>rebuildUpToRound = Some 12, options_broadcasts_active = False,
                         options_syncing_active = False\<rparr>,
       events = [CreateCache, CreateStorage, BootstrapStorage, BootstrapCache, DefineSchema,
                 ApplyMigrations, InitModules False False, Subscribe ''app:state:updated'',
                 LoadBlockChain (Some 12), EmitCleanup None]\<rparr>, None)"
    by (simp add: bootstrap_def bootstrap_try_def Let_def call_def emit_def
          initModules_step_def rebuilding_def all_fine_def rebuild_state_def)
  have rebuild: "rebuilding (chain_options rebuild_state)"
    by (simp add: rebuilding_def rebuild_state_def)
  have post: "postTransaction rebuild_Transport (Some \<lparr>transaction = Some example_json\<rparr>) example_node =
       (Inr \<lparr>post_success = True, transactionId = ''123''\<rparr>,
        \<lparr>chain = 10, pool = [''123'', ''77''],
         effects = [FromJson, ComposedTransactionsCheck, LogDebug ''Received transaction 123'',
                    ProcessUnconfirmedTransaction]\<rparr>)"
    by (simp add: postTransaction_def postTransaction_try_def receiveTransaction_def Let_def
          log_effect_def rebuild_Transport_def example_Transport_def example_json_def
          example_node_def)
  have shared: "getTransactions rebuild_Transport
        (snd (postTransaction rebuild_Transport (Some \<lparr>transaction = Some example_json\<rparr>)
                example_node)) =
       \<lparr>transactions_success = True, transactions = [''123'', ''77'']\<rparr>"
    unfolding post
    by (simp add: getTransactions_def rebuild_Transport_def example_Transport_def)
  have flag: "\<not> broadcasts_active rebuild_Transport"
    by (simp add: rebuild_Transport_def run)
  have pub: "isPublic ''getTransactions''"
    by (simp add: isPublic_def)
  from rebuild run flag post pub shared show ?thesis by simp
qed

end
